theory Spec2Isabelle
  imports Complex_Main "HOL-Library.Word"
begin

section \<open>Python values and strings\<close>

text \<open>
  Strings are byte strings (\<open>char list\<close>); \<open>lower\<close> and \<open>upper\<close> act on the ASCII
  letters, which is all that the suffix test \<open>.pdf\<close> and the image format names need.
  Python integers are unbounded (\<open>int\<close>), counters that start at 0 are \<open>nat\<close>.
\<close>

datatype exn_kind =
  ValueError | IndexError | KeyError | AttributeError | FileNotFoundError
  | FileExistsError | NotADirectoryError | IsADirectoryError | UnicodeEncodeError
  | LibraryError

text \<open>
  An exception caught by \<open>except Exception as e\<close>: its class and \<open>str(e)\<close>.
  Interrupts and exits, which that handler lets through, are not modelled.
\<close>

datatype exn = Exn exn_kind string

fun exn_str :: "exn \<Rightarrow> string" where
  "exn_str (Exn k m) = m"

datatype pyval =
  PNone | PBool bool | PInt int | PFloat rat | PStr string | PTuple "pyval list"

definition upper_letters :: string where
  "upper_letters = ''ABCDEFGHIJKLMNOPQRSTUVWXYZ''"

definition lower_letters :: string where
  "lower_letters = ''abcdefghijklmnopqrstuvwxyz''"

definition lower_char :: "char \<Rightarrow> char" where
  "lower_char c = (case map_of (zip upper_letters lower_letters) c of Some d \<Rightarrow> d | None \<Rightarrow> c)"

definition upper_char :: "char \<Rightarrow> char" where
  "upper_char c = (case map_of (zip lower_letters upper_letters) c of Some d \<Rightarrow> d | None \<Rightarrow> c)"

definition lower :: "string \<Rightarrow> string" where
  "lower s = map lower_char s"

definition upper :: "string \<Rightarrow> string" where
  "upper s = map upper_char s"

definition endswith :: "string \<Rightarrow> string \<Rightarrow> bool" where
  "endswith s suf = (length suf \<le> length s \<and> drop (length s - length suf) s = suf)"

text \<open>\<open>str(n)\<close> for an integer: decimal digits, a minus sign for negatives.\<close>

definition digit_char :: "nat \<Rightarrow> char" where
  "digit_char d = ''0123456789'' ! d"

fun str_nat :: "nat \<Rightarrow> string" where
  "str_nat n = (if n < 10 then [digit_char n] else str_nat (n div 10) @ [digit_char (n mod 10)])"

declare str_nat.simps [simp del]

definition str_int :: "int \<Rightarrow> string" where
  "str_int i = (if 0 \<le> i then str_nat (nat i) else CHR ''-'' # str_nat (nat (- i)))"



text \<open>\<open>xs[i]\<close>: a negative index counts from the end, out of range raises IndexError.\<close>

definition py_getitem :: "'a list \<Rightarrow> int \<Rightarrow> exn + 'a" where
  "py_getitem xs i =
     (let j = (if i < 0 then i + int (length xs) else i)
      in if 0 \<le> j \<and> j < int (length xs) then Inr (xs ! nat j)
         else Inl (Exn IndexError ''list index out of range''))"

text \<open>
  \<open>min(xs)\<close> and \<open>max(xs)\<close>: ValueError on the empty sequence (the wording of the
  message is the one of Python 3.11).
\<close>

fun py_min :: "int list \<Rightarrow> exn + int" where
  "py_min [] = Inl (Exn ValueError ''min() arg is an empty sequence'')"
| "py_min (x # xs) = Inr (fold min xs x)"

fun py_max :: "int list \<Rightarrow> exn + int" where
  "py_max [] = Inl (Exn ValueError ''max() arg is an empty sequence'')"
| "py_max (x # xs) = Inr (fold max xs x)"

section \<open>Paths (posixpath)\<close>

definition sep :: char where
  "sep = CHR ''/''"

definition path_join :: "string \<Rightarrow> string \<Rightarrow> string" where
  "path_join a b =
     (if b \<noteq> [] \<and> hd b = sep then b
      else if a = [] \<or> last a = sep then a @ b
      else a @ [sep] @ b)"

text \<open>\<open>s.rfind(c)\<close>: the last index of \<open>c\<close>, or -1.\<close>

definition rfind :: "char \<Rightarrow> string \<Rightarrow> int" where
  "rfind c s =
     (if c \<in> set s then int (length s) - 1 - int (length (takeWhile (\<lambda>x. x \<noteq> c) (rev s)))
      else - 1)"

definition basename :: "string \<Rightarrow> string" where
  "basename p = drop (nat (rfind sep p + 1)) p"

text \<open>
  \<open>os.path.splitext\<close>: the extension starts at the last dot of the last component,
  unless that component has only dots before it.
\<close>

definition splitext :: "string \<Rightarrow> string \<times> string" where
  "splitext p =
     (let sepIndex = rfind sep p; dotIndex = rfind (CHR ''.'') p
      in if dotIndex > sepIndex
            \<and> list_ex (\<lambda>i. p ! i \<noteq> CHR ''.'') [nat (sepIndex + 1) ..< nat dotIndex]
         then (take (nat dotIndex) p, drop (nat dotIndex) p)
         else (p, []))"

section \<open>The file system and the console\<close>

text \<open>
  A file or directory is identified by whether its path is absolute and by the non-empty
  components of the path, so that \<open>out\<close>, \<open>out/\<close> and \<open>out//\<close> name the same
  directory. The components \<open>.\<close> and \<open>..\<close>, symbolic links and permissions are not
  interpreted. The root and the working directory always exist. The console is the list
  of the lines printed so far; printing never fails.
\<close>

type_synonym path_key = "bool \<times> string list"

fun split_sep :: "string \<Rightarrow> string list" where
  "split_sep [] = [[]]"
| "split_sep (c # cs) =
     (if c = sep then [] # split_sep cs
      else (case split_sep cs of [] \<Rightarrow> [[c]] | r # rs \<Rightarrow> (c # r) # rs))"

definition path_key :: "string \<Rightarrow> path_key" where
  "path_key p = (p \<noteq> [] \<and> hd p = sep, filter (\<lambda>c. c \<noteq> []) (split_sep p))"

definition parent :: "path_key \<Rightarrow> path_key" where
  "parent k = (fst k, butlast (snd k))"

text \<open>The directories on the way to a path, the path itself included.\<close>

definition ancestors :: "path_key \<Rightarrow> path_key list" where
  "ancestors k = map (\<lambda>n. (fst k, take n (snd k))) [1 ..< Suc (length (snd k))]"

record world =
  dirs :: "path_key set"
  files :: "path_key \<rightharpoonup> string"
  stdout :: "string list"

definition py_print :: "string \<Rightarrow> world \<Rightarrow> world" where
  "py_print s w = w\<lparr>stdout := stdout w @ [s]\<rparr>"

definition is_dir_key :: "world \<Rightarrow> path_key \<Rightarrow> bool" where
  "is_dir_key w k = (snd k = [] \<or> k \<in> dirs w)"

definition os_path_isdir :: "world \<Rightarrow> string \<Rightarrow> bool" where
  "os_path_isdir w p = (p \<noteq> [] \<and> is_dir_key w (path_key p))"

definition os_path_exists :: "world \<Rightarrow> string \<Rightarrow> bool" where
  "os_path_exists w p = (p \<noteq> [] \<and> (is_dir_key w (path_key p) \<or> path_key p \<in> dom (files w)))"

text \<open>
  \<open>os.makedirs(p, exist_ok=True)\<close>: creates the directory and the missing ones above
  it; raises for the empty path and when a regular file is in the way.
\<close>

definition os_makedirs :: "string \<Rightarrow> world \<Rightarrow> exn + world" where
  "os_makedirs p w =
     (if p = [] then Inl (Exn FileNotFoundError ''[Errno 2] No such file or directory'')
      else if path_key p \<in> dom (files w)
      then Inl (Exn FileExistsError ''[Errno 17] File exists'')
      else if list_ex (\<lambda>k. k \<in> dom (files w)) (ancestors (path_key p))
      then Inl (Exn NotADirectoryError ''[Errno 20] Not a directory'')
      else Inr (w\<lparr>dirs := dirs w \<union> set (ancestors (path_key p))\<rparr>))"

text \<open>
  Opening a path for writing and writing the whole content: the directory above must
  exist and the path must not be a directory; an existing file is replaced.
\<close>

definition writable :: "world \<Rightarrow> string \<Rightarrow> bool" where
  "writable w p =
     (snd (path_key p) \<noteq> [] \<and> path_key p \<notin> dirs w \<and> is_dir_key w (parent (path_key p)))"

definition write_file :: "string \<Rightarrow> string \<Rightarrow> world \<Rightarrow> exn + world" where
  "write_file p content w =
     (if snd (path_key p) = [] \<or> path_key p \<in> dirs w
      then (if p = [] then Inl (Exn FileNotFoundError ''[Errno 2] No such file or directory'')
            else Inl (Exn IsADirectoryError ''[Errno 21] Is a directory''))
      else if \<not> is_dir_key w (parent (path_key p))
      then (if parent (path_key p) \<in> dom (files w)
            then Inl (Exn NotADirectoryError ''[Errno 20] Not a directory'')
            else Inl (Exn FileNotFoundError ''[Errno 2] No such file or directory''))
      else Inr (w\<lparr>files := (files w)(path_key p \<mapsto> content)\<rparr>))"

section \<open>Images and the external collaborators\<close>

text \<open>
  A raster image as the imaging library holds it: the pixel mode (\<open>RGB\<close>, \<open>L\<close> for
  8-bit grayscale, \<open>1\<close> for bilevel), the size in pixels and the bytes of the pixels.
\<close>

record image =
  img_mode :: string
  img_size :: "nat \<times> nat"
  img_data :: "8 word list"

text \<open>
  The PDF decoder, the image codecs, the OCR engine and directory enumeration are black
  boxes: each returns a value or raises. Keyword arguments are a dictionary.
\<close>

record env =
  convert_from_path :: "string \<Rightarrow> (string \<rightharpoonup> pyval) \<Rightarrow> exn + image list"
  convert_from_bytes :: "string \<Rightarrow> (string \<rightharpoonup> pyval) \<Rightarrow> exn + image list"
  image_convert :: "image \<Rightarrow> string \<Rightarrow> exn + image"
  image_encode :: "image \<Rightarrow> string \<Rightarrow> exn + string"
  image_to_string :: "image \<Rightarrow> string \<Rightarrow> exn + string"
  os_listdir :: "world \<Rightarrow> string \<Rightarrow> exn + string list"
  dir_st_size :: "path_key \<Rightarrow> nat"
  stdout_encodes :: "string \<Rightarrow> bool"

text \<open>
  \<open>print(s)\<close> where no \<open>try\<close> encloses it, as everywhere in \<open>main\<close>: the line is
  written when the encoding of the console has it, and UnicodeEncodeError is raised
  otherwise (a file name may hold bytes that the console cannot encode). The functions
  that catch their errors print with \<open>py_print\<close>: their lines are taken to be
  printable.
\<close>

definition print_line :: "env \<Rightarrow> string \<Rightarrow> world \<Rightarrow> exn + world" where
  "print_line env s w =
     (if stdout_encodes env s then Inr (py_print s w)
      else Inl (Exn UnicodeEncodeError ''surrogates not allowed''))"

text \<open>
  \<open>os.path.getsize\<close>: the length of a regular file, for a directory the size that the
  file system reports; a missing path raises.
\<close>

definition os_path_getsize :: "env \<Rightarrow> world \<Rightarrow> string \<Rightarrow> exn + nat" where
  "os_path_getsize env w p =
     (if p = [] then Inl (Exn FileNotFoundError ''[Errno 2] No such file or directory'')
      else case files w (path_key p) of
        Some content \<Rightarrow> Inr (length content)
      | None \<Rightarrow>
          if is_dir_key w (path_key p) then Inr (dir_st_size env (path_key p))
          else Inl (Exn FileNotFoundError ''[Errno 2] No such file or directory''))"

text \<open>
  \<open>image.save(filepath, format=fmt)\<close>: the codec registered under the format name
  encodes the image, and the bytes are written to the path. A failed save leaves no file.
\<close>

definition image_save :: "env \<Rightarrow> image \<Rightarrow> string \<Rightarrow> string \<Rightarrow> world \<Rightarrow> exn + world" where
  "image_save env img filepath fmt w =
     (case image_encode env img fmt of
        Inl e \<Rightarrow> Inl e
      | Inr content \<Rightarrow> write_file filepath content w)"

text \<open>
  \<open>image.point(f, mode)\<close> with a function: the function is tabulated on 0..255 and the
  table applied to every pixel. A mode argument is accepted for an 8-bit source (\<open>L\<close> or
  \<open>P\<close>) and the target \<open>1\<close>, where the bytes 0 and 255 are black and white.
\<close>

definition image_point :: "(8 word \<Rightarrow> 8 word) \<Rightarrow> string \<Rightarrow> image \<Rightarrow> exn + image" where
  "image_point f mode img =
     (if (img_mode img = ''L'' \<or> img_mode img = ''P'') \<and> mode = ''1''
      then Inr (img\<lparr>img_mode := mode, img_data := map f (img_data img)\<rparr>)
      else Inl (Exn ValueError ''point operation not supported for this mode''))"

section \<open>pdf\_extractor.py\<close>

text \<open>The threshold of line 23: \<open>lambda x: 0 if x < 128 else 255\<close>.\<close>

definition threshold :: "8 word \<Rightarrow> 8 word" where
  "threshold x = (if x < 128 then 0 else 255)"

definition newline :: string where
  "newline = [CHR 0x0A]"

definition page_section :: "nat \<Rightarrow> string \<Rightarrow> string" where
  "page_section i text = ''Page '' @ str_int (int i + 1) @ '':'' @ newline @ text @ newline @ newline"

text \<open>One page, lines 20 to 26: grayscale, threshold, recognition of Bangla text.\<close>

definition ocr_page :: "env \<Rightarrow> image \<Rightarrow> exn + string" where
  "ocr_page env img =
     (case image_convert env img ''L'' of
        Inl e \<Rightarrow> Inl e
      | Inr gray \<Rightarrow>
          (case image_point threshold ''1'' gray of
             Inl e \<Rightarrow> Inl e
           | Inr bw \<Rightarrow> image_to_string env bw ''ben''))"

text \<open>The loop over \<open>enumerate(images)\<close>, lines 16 to 27.\<close>

fun ocr_pages ::
  "env \<Rightarrow> nat \<Rightarrow> image list \<Rightarrow> string list \<Rightarrow> world \<Rightarrow> world \<times> (exn + string list)" where
  "ocr_pages env i [] all_text w = (w, Inr all_text)"
| "ocr_pages env i (img # rest) all_text w =
     (let w1 = py_print (''Processing page '' @ str_int (int i + 1) @ ''...'') w
      in case ocr_page env img of
           Inl e \<Rightarrow> (w1, Inl e)
         | Inr text \<Rightarrow> ocr_pages env (Suc i) rest (all_text @ [page_section i text]) w1)"

definition extract_text_from_pdf :: "env \<Rightarrow> string \<Rightarrow> world \<Rightarrow> world \<times> string" where
  "extract_text_from_pdf env pdf_path w =
     (case convert_from_path env pdf_path Map.empty of
        Inl e \<Rightarrow> (py_print (''Error: '' @ exn_str e) w, [])
      | Inr images \<Rightarrow>
          (case ocr_pages env 0 images [] w of
             (w1, Inl e) \<Rightarrow> (py_print (''Error: '' @ exn_str e) w1, [])
           | (w1, Inr all_text) \<Rightarrow> (w1, concat all_text)))"

definition files_dir :: string where
  "files_dir = ''files''"

definition output_path :: "string \<Rightarrow> string" where
  "output_path pdf_file = ''extracted_text/'' @ fst (splitext pdf_file) @ ''_extracted.txt''"

text \<open>The lines that \<open>main\<close> prints, lines 38, 45, 51, 54, 62 and 64.\<close>

definition not_found_line :: string where
  "not_found_line = ''Directory '' @ [CHR 0x27] @ files_dir @ [CHR 0x27] @ '' not found!''"

definition no_pdf_line :: string where
  "no_pdf_line = ''No PDF files found in the directory!''"

definition processing_line :: "string \<Rightarrow> string" where
  "processing_line pdf_file = newline @ ''Processing file: '' @ pdf_file"

definition extracting_line :: string where
  "extracting_line = ''Extracting text from PDF...''"

definition saved_line :: "string \<Rightarrow> string" where
  "saved_line pdf_file = ''Text extracted and saved to: '' @ output_path pdf_file"

definition done_line :: string where
  "done_line = ''All files processed.''"

text \<open>
  The loop over \<open>pdf_files\<close>, lines 49 to 62; the prints and the writing of the file
  are outside any \<open>try\<close>.
\<close>

fun main_loop :: "env \<Rightarrow> string list \<Rightarrow> world \<Rightarrow> world \<times> (exn + unit)" where
  "main_loop env [] w = (w, Inr ())"
| "main_loop env (pdf_file # rest) w =
     (let pdf_path = path_join files_dir pdf_file
      in case print_line env (processing_line pdf_file) w of
           Inl e \<Rightarrow> (w, Inl e)
         | Inr w1 \<Rightarrow>
             (case print_line env extracting_line w1 of
                Inl e \<Rightarrow> (w1, Inl e)
              | Inr w2 \<Rightarrow>
                  (case extract_text_from_pdf env pdf_path w2 of
                     (w3, extracted_text) \<Rightarrow>
                       (case write_file (output_path pdf_file) extracted_text w3 of
                          Inl e \<Rightarrow> (w3, Inl e)
                        | Inr w4 \<Rightarrow>
                            (case print_line env (saved_line pdf_file) w4 of
                               Inl e \<Rightarrow> (w4, Inl e)
                             | Inr w5 \<Rightarrow> main_loop env rest w5)))))"

definition main :: "env \<Rightarrow> world \<Rightarrow> world \<times> (exn + unit)" where
  "main env w =
     (if \<not> os_path_exists w files_dir
      then (case print_line env not_found_line w of
              Inl e \<Rightarrow> (w, Inl e)
            | Inr w1 \<Rightarrow> (w1, Inr ()))
      else case os_listdir env w files_dir of
             Inl e \<Rightarrow> (w, Inl e)
           | Inr names \<Rightarrow>
               (let pdf_files = filter (\<lambda>f. endswith (lower f) ''.pdf'') names
                in if pdf_files = []
                   then (case print_line env no_pdf_line w of
                           Inl e \<Rightarrow> (w, Inl e)
                         | Inr w1 \<Rightarrow> (w1, Inr ()))
                   else (case main_loop env pdf_files w of
                           (w1, Inl e) \<Rightarrow> (w1, Inl e)
                         | (w1, Inr u) \<Rightarrow>
                             (case print_line env done_line w1 of
                                Inl e \<Rightarrow> (w1, Inl e)
                              | Inr w2 \<Rightarrow> (w2, Inr ())))))"

section \<open>extract\_to\_image.py\<close>

definition page_filename :: "int \<Rightarrow> string \<Rightarrow> string" where
  "page_filename n fmt = ''page_'' @ str_int n @ ''.'' @ lower fmt"


text \<open>
  The loop over \<open>enumerate(images)\<close> that saves every page; the source has it three
  times (lines 28 to 33, 63 to 68 and 155 to 160).
\<close>

fun save_pages ::
  "env \<Rightarrow> string \<Rightarrow> string \<Rightarrow> nat \<Rightarrow> image list \<Rightarrow> string list \<Rightarrow> world
    \<Rightarrow> world \<times> (exn + string list)" where
  "save_pages env output_dir fmt i [] image_paths w = (w, Inr image_paths)"
| "save_pages env output_dir fmt i (img # rest) image_paths w =
     (let filename = page_filename (int i + 1) fmt;
          filepath = path_join output_dir filename
      in case image_save env img filepath (upper fmt) w of
           Inl e \<Rightarrow> (w, Inl e)
         | Inr w1 \<Rightarrow>
             save_pages env output_dir fmt (Suc i) rest (image_paths @ [filepath])
               (py_print (''Saved page '' @ str_int (int i + 1) @ '': '' @ filepath) w1))"

definition convert_pdf_to_images ::
  "env \<Rightarrow> string \<Rightarrow> string \<Rightarrow> int \<Rightarrow> string \<Rightarrow> world \<Rightarrow> world \<times> (exn + string list)" where
  "convert_pdf_to_images env pdf_path output_dir dpi fmt w =
     (case os_makedirs output_dir w of
        Inl e \<Rightarrow> (w, Inl e)
      | Inr w1 \<Rightarrow>
          (case convert_from_path env pdf_path [''dpi'' \<mapsto> PInt dpi] of
             Inl e \<Rightarrow> (py_print (''Error converting PDF to images: '' @ exn_str e) w1, Inr [])
           | Inr images \<Rightarrow>
               (case save_pages env output_dir fmt 0 images [] w1 of
                  (w2, Inl e) \<Rightarrow>
                    (py_print (''Error converting PDF to images: '' @ exn_str e) w2, Inr [])
                | (w2, Inr image_paths) \<Rightarrow> (w2, Inr image_paths))))"

definition convert_pdf_bytes_to_images ::
  "env \<Rightarrow> string \<Rightarrow> string \<Rightarrow> int \<Rightarrow> string \<Rightarrow> world \<Rightarrow> world \<times> (exn + string list)" where
  "convert_pdf_bytes_to_images env pdf_bytes output_dir dpi fmt w =
     (case os_makedirs output_dir w of
        Inl e \<Rightarrow> (w, Inl e)
      | Inr w1 \<Rightarrow>
          (case convert_from_bytes env pdf_bytes [''dpi'' \<mapsto> PInt dpi] of
             Inl e \<Rightarrow>
               (py_print (''Error converting PDF bytes to images: '' @ exn_str e) w1, Inr [])
           | Inr images \<Rightarrow>
               (case save_pages env output_dir fmt 0 images [] w1 of
                  (w2, Inl e) \<Rightarrow>
                    (py_print (''Error converting PDF bytes to images: '' @ exn_str e) w2, Inr [])
                | (w2, Inr image_paths) \<Rightarrow> (w2, Inr image_paths))))"

text \<open>
  The loop over \<open>enumerate(sorted(pages))\<close>, lines 100 to 107: the guard compares the
  position in the sorted list with the number of images, the image is taken at the
  distance of the page number from the smallest one.
\<close>

fun save_selected ::
  "env \<Rightarrow> string \<Rightarrow> string \<Rightarrow> int \<Rightarrow> image list \<Rightarrow> nat \<Rightarrow> int list \<Rightarrow> string list \<Rightarrow> world
    \<Rightarrow> world \<times> (exn + string list)" where
  "save_selected env output_dir fmt min_page images i [] image_paths w = (w, Inr image_paths)"
| "save_selected env output_dir fmt min_page images i (page_num # rest) image_paths w =
     (if i < length images
      then (case py_getitem images (page_num - min_page) of
              Inl e \<Rightarrow> (w, Inl e)
            | Inr img \<Rightarrow>
                (let filename = page_filename page_num fmt;
                     filepath = path_join output_dir filename
                 in case image_save env img filepath (upper fmt) w of
                      Inl e \<Rightarrow> (w, Inl e)
                    | Inr w1 \<Rightarrow>
                        save_selected env output_dir fmt min_page images (Suc i) rest
                          (image_paths @ [filepath])
                          (py_print (''Saved page '' @ str_int page_num @ '': '' @ filepath) w1)))
      else save_selected env output_dir fmt min_page images (Suc i) rest image_paths w)"

text \<open>The statements inside the \<open>try\<close> of \<open>convert_specific_pages\<close>, lines 96 to 109.\<close>

definition specific_pages_body ::
  "env \<Rightarrow> string \<Rightarrow> int list \<Rightarrow> string \<Rightarrow> int \<Rightarrow> string \<Rightarrow> world
    \<Rightarrow> world \<times> (exn + string list)" where
  "specific_pages_body env pdf_path pages output_dir dpi fmt w =
     (case py_min pages of
        Inl e \<Rightarrow> (w, Inl e)
      | Inr first_page \<Rightarrow>
          (case py_max pages of
             Inl e \<Rightarrow> (w, Inl e)
           | Inr last_page \<Rightarrow>
               (case convert_from_path env pdf_path
                       [''dpi'' \<mapsto> PInt dpi, ''first_page'' \<mapsto> PInt first_page,
                        ''last_page'' \<mapsto> PInt last_page] of
                  Inl e \<Rightarrow> (w, Inl e)
                | Inr images \<Rightarrow>
                    save_selected env output_dir fmt first_page images 0 (sort pages) [] w)))"

definition convert_specific_pages ::
  "env \<Rightarrow> string \<Rightarrow> int list \<Rightarrow> string \<Rightarrow> int \<Rightarrow> string \<Rightarrow> world
    \<Rightarrow> world \<times> (exn + string list)" where
  "convert_specific_pages env pdf_path pages output_dir dpi fmt w =
     (case os_makedirs output_dir w of
        Inl e \<Rightarrow> (w, Inl e)
      | Inr w1 \<Rightarrow>
          (case specific_pages_body env pdf_path pages output_dir dpi fmt w1 of
             (w2, Inl e) \<Rightarrow>
               (py_print (''Error converting specific pages: '' @ exn_str e) w2, Inr [])
           | (w2, Inr image_paths) \<Rightarrow> (w2, Inr image_paths)))"

definition default_settings :: "string \<rightharpoonup> pyval" where
  "default_settings =
     [''dpi'' \<mapsto> PInt 200, ''format'' \<mapsto> PStr ''PNG'', ''thread_count'' \<mapsto> PInt 1,
      ''use_cropbox'' \<mapsto> PBool False, ''strict'' \<mapsto> PBool False]"

text \<open>
  The statements inside the \<open>try\<close> of \<open>convert_with_custom_settings\<close>: a format that
  is not a string has no \<open>lower\<close>, which raises in the first round of the loop.
\<close>

definition custom_settings_body ::
  "env \<Rightarrow> string \<Rightarrow> string \<Rightarrow> (string \<rightharpoonup> pyval) \<Rightarrow> pyval \<Rightarrow> world
    \<Rightarrow> world \<times> (exn + string list)" where
  "custom_settings_body env pdf_path output_dir settings output_format w =
     (case convert_from_path env pdf_path settings of
        Inl e \<Rightarrow> (w, Inl e)
      | Inr images \<Rightarrow>
          (case output_format of
             PStr fmt \<Rightarrow> save_pages env output_dir fmt 0 images [] w
           | _ \<Rightarrow>
               if images = [] then (w, Inr [])
               else (w, Inl (Exn AttributeError ''object has no attribute lower''))))"

definition convert_with_custom_settings ::
  "env \<Rightarrow> string \<Rightarrow> string \<Rightarrow> (string \<rightharpoonup> pyval) \<Rightarrow> world \<Rightarrow> world \<times> (exn + string list)" where
  "convert_with_custom_settings env pdf_path output_dir kwargs w =
     (let settings = default_settings ++ kwargs
      in case settings ''format'' of
           None \<Rightarrow> (w, Inl (Exn KeyError ''format''))
         | Some output_format \<Rightarrow>
             (case os_makedirs output_dir w of
                Inl e \<Rightarrow> (w, Inl e)
              | Inr w1 \<Rightarrow>
                  (case custom_settings_body env pdf_path output_dir
                          (settings(''format'' := None)) output_format w1 of
                     (w2, Inl e) \<Rightarrow>
                       (py_print (''Error converting with custom settings: '' @ exn_str e) w2,
                        Inr [])
                   | (w2, Inr image_paths) \<Rightarrow> (w2, Inr image_paths))))"

definition get_pdf_info :: "env \<Rightarrow> string \<Rightarrow> world \<Rightarrow> world \<times> (string \<rightharpoonup> pyval)" where
  "get_pdf_info env pdf_path w =
     (case convert_from_path env pdf_path [''dpi'' \<mapsto> PInt 50] of
        Inl e \<Rightarrow> (py_print (''Error getting PDF info: '' @ exn_str e) w, Map.empty)
      | Inr images \<Rightarrow>
          (case os_path_getsize env w pdf_path of
             Inl e \<Rightarrow> (py_print (''Error getting PDF info: '' @ exn_str e) w, Map.empty)
           | Inr file_size \<Rightarrow>
               (let info = [''page_count'' \<mapsto> PInt (int (length images)),
                            ''file_size_mb'' \<mapsto> PFloat (of_nat file_size / (1024 * 1024)),
                            ''filename'' \<mapsto> PStr (basename pdf_path)]
                in case images of
                     [] \<Rightarrow> (w, info)
                   | first_page # rest \<Rightarrow>
                       (w, info(''page_dimensions'' \<mapsto>
                                  PTuple [PInt (int (fst (img_size first_page))),
                                          PInt (int (snd (img_size first_page)))],
                                ''page_mode'' \<mapsto> PStr (img_mode first_page))))))"

section \<open>A small environment for running the functions\<close>

text \<open>
  Three documents: \<open>doc.pdf\<close> with three pages, \<open>files/two.pdf\<close> with two,
  \<open>files/bad.pdf\<close> whose second page cannot be recognised, and the empty
  \<open>empty.pdf\<close>. The decoder honours \<open>first_page\<close> and \<open>last_page\<close>, only the
  PNG codec is installed, recognition prints a dark pixel as \<open>#\<close>, and the console
  encodes every line without the byte 255.
\<close>

definition demo_page :: "8 word list \<Rightarrow> image" where
  "demo_page px = \<lparr>img_mode = ''RGB'', img_size = (length px, 1), img_data = px\<rparr>"

definition demo_document :: "string \<Rightarrow> image list option" where
  "demo_document p =
     (if p = ''doc.pdf'' then Some [demo_page [10, 200], demo_page [127, 128], demo_page [255, 0]]
      else if p = ''files/two.pdf'' then Some [demo_page [10, 200], demo_page [127, 128]]
      else if p = ''files/bad.pdf'' then Some [demo_page [10, 200], demo_page [], demo_page [255, 0]]
      else if p = ''empty.pdf'' then Some []
      else None)"

definition demo_decode :: "string \<Rightarrow> (string \<rightharpoonup> pyval) \<Rightarrow> exn + image list" where
  "demo_decode p kw =
     (case demo_document p of
        None \<Rightarrow> Inl (Exn LibraryError ''Unable to get page count.'')
      | Some pages \<Rightarrow>
          (case (kw ''first_page'', kw ''last_page'') of
             (Some (PInt a), Some (PInt b)) \<Rightarrow> Inr (drop (nat (a - 1)) (take (nat b) pages))
           | _ \<Rightarrow> Inr pages))"

definition demo_recognise :: "image \<Rightarrow> string \<Rightarrow> exn + string" where
  "demo_recognise img lang =
     (if img_data img = [] then Inl (Exn LibraryError ''recognition failed'')
      else Inr (map (\<lambda>x. if x = 0 then CHR ''#'' else CHR ''.'') (img_data img)))"

definition demo_env :: env where
  "demo_env =
     \<lparr>convert_from_path = demo_decode,
      convert_from_bytes = (\<lambda>b kw. demo_decode b kw),
      image_convert = (\<lambda>img m. Inr (img\<lparr>img_mode := m\<rparr>)),
      image_encode = (\<lambda>img f. if f = ''PNG'' then Inr (''PNG'' @ map (\<lambda>x. CHR ''x'') (img_data img))
                                else Inl (Exn KeyError f)),
      image_to_string = demo_recognise,
      os_listdir = (\<lambda>w p. if p = ''files'' then Inr [''two.pdf'', ''bad.pdf'', ''notes.txt'']
                            else Inl (Exn FileNotFoundError p)),
      dir_st_size = (\<lambda>k. 4096),
      stdout_encodes = (\<lambda>s. CHR 0xFF \<notin> set s)\<rparr>"

text \<open>The same with one PDF in \<open>files\<close> whose name the console cannot encode.\<close>

definition odd_name_env :: env where
  "odd_name_env = demo_env\<lparr>os_listdir := (\<lambda>w p. Inr [CHR 0xFF # ''.pdf''])\<rparr>"

definition blank_world :: world where
  "blank_world = \<lparr>dirs = {}, files = Map.empty, stdout = []\<rparr>"

definition demo_world :: world where
  "demo_world =
     \<lparr>dirs = {(False, [''files'']), (False, [''extracted_text''])},
      files = [(False, [''files'', ''two.pdf'']) \<mapsto> ''%PDF-two'',
               (False, [''files'', ''bad.pdf'']) \<mapsto> ''%PDF-bad'',
               (False, [''empty.pdf'']) \<mapsto> ''%PDF-''],
      stdout = []\<rparr>"


text \<open>A regular file named \<open>pdf_images\<close> in the working directory.\<close>

definition blocked_world :: world where
  "blocked_world = blank_world\<lparr>files := [(False, [''pdf_images'']) \<mapsto> ''x'']\<rparr>"

section \<open>The console does not touch the file system\<close>

lemma py_print_fields [simp]:
  "dirs (py_print s w) = dirs w" "files (py_print s w) = files w"
  "stdout (py_print s w) = stdout w @ [s]"
  by (simp_all add: py_print_def)

section \<open>Decimal numerals and file names\<close>















section \<open>Paths\<close>







section \<open>Creating directories and writing files\<close>

lemma makedirs_result:
  assumes "os_makedirs p w = Inr w1"
  shows "p \<noteq> []" and "dirs w1 = dirs w \<union> set (ancestors (path_key p))"
    and "files w1 = files w" and "stdout w1 = stdout w" and "is_dir_key w1 (path_key p)"
proof -
  from assms show "p \<noteq> []" by (auto simp: os_makedirs_def split: if_splits)
  from assms show d: "dirs w1 = dirs w \<union> set (ancestors (path_key p))"
    by (auto simp: os_makedirs_def split: if_splits)
  from assms show "files w1 = files w" by (auto simp: os_makedirs_def split: if_splits)
  from assms show "stdout w1 = stdout w" by (auto simp: os_makedirs_def split: if_splits)
  have "snd (path_key p) \<noteq> [] \<Longrightarrow> path_key p \<in> set (ancestors (path_key p))"
  proof -
    assume ne: "snd (path_key p) \<noteq> []"
    have "length (snd (path_key p)) \<in> set [1 ..< Suc (length (snd (path_key p)))]"
      using ne by (cases "snd (path_key p)") auto
    then have "(fst (path_key p), take (length (snd (path_key p))) (snd (path_key p)))
                 \<in> set (ancestors (path_key p))"
      unfolding ancestors_def set_map by (rule imageI)
    then show ?thesis by simp
  qed
  with d show "is_dir_key w1 (path_key p)" by (auto simp: is_dir_key_def)
qed




lemma write_file_writable:
  "writable w p \<Longrightarrow> write_file p c w = Inr (w\<lparr>files := (files w)(path_key p \<mapsto> c)\<rparr>)"
  by (auto simp: writable_def write_file_def)

lemma write_file_result:
  "write_file p c w = Inr w' \<Longrightarrow> w' = w\<lparr>files := (files w)(path_key p \<mapsto> c)\<rparr>"
  by (auto simp: write_file_def split: if_splits)

lemma writable_dirs: "dirs w' = dirs w \<Longrightarrow> writable w' p = writable w p"
  by (simp add: writable_def is_dir_key_def)



section \<open>The OCR pipeline\<close>

text \<open>
  Claim C4. In the OCR pipeline every page is binarized between the conversion to
  grayscale and the recognition: the image handed to the OCR engine is the grayscale
  page in which every pixel below 128, in particular 127, has become black (0) and
  every pixel at or above 128, in particular 128, has become white (255), as a bilevel
  image of the same size.
\<close>

theorem binarization_threshold:
  assumes conv: "image_convert env img ''L'' = Inr gray" and mode: "img_mode gray = ''L''"
  shows "(\<exists>bw. ocr_page env img = image_to_string env bw ''ben''
            \<and> bw = gray\<lparr>img_mode := ''1'', img_data := map threshold (img_data gray)\<rparr>
            \<and> img_size bw = img_size gray
            \<and> length (img_data bw) = length (img_data gray)
            \<and> (\<forall>i<length (img_data gray).
                  (img_data gray ! i < 128 \<longrightarrow> img_data bw ! i = 0) \<and>
                  (128 \<le> img_data gray ! i \<longrightarrow> img_data bw ! i = 255)))
         \<and> threshold 127 = 0 \<and> threshold 128 = 255"
  using assms by (auto simp: ocr_page_def threshold_def image_point_def)

theorem binarization_threshold_witness:
  "image_convert demo_env (demo_page [127, 128]) ''L''
     = Inr (demo_page [127, 128]\<lparr>img_mode := ''L''\<rparr>) \<and>
   img_mode (demo_page [127, 128]\<lparr>img_mode := ''L''\<rparr>) = ''L'' \<and>
   ocr_page demo_env (demo_page [127, 128])
     = image_to_string demo_env \<lparr>img_mode = ''1'', img_size = (2, 1), img_data = [0, 255]\<rparr> ''ben'' \<and>
   ocr_page demo_env (demo_page [127, 128]) = Inr ''#.''"
proof -
  have conv: "image_convert demo_env (demo_page [127, 128]) ''L''
                = Inr (demo_page [127, 128]\<lparr>img_mode := ''L''\<rparr>)"
    by (simp add: demo_env_def)
  have m: "img_mode (demo_page [127, 128]\<lparr>img_mode := ''L''\<rparr>) = ''L''"
    by simp
  have bw: "demo_page [127, 128]\<lparr>img_mode := ''L''\<rparr>
              \<lparr>img_mode := ''1'',
                img_data := map threshold (img_data (demo_page [127, 128]\<lparr>img_mode := ''L''\<rparr>))\<rparr>
            = \<lparr>img_mode = ''1'', img_size = (2, 1), img_data = [0, 255]\<rparr>"
    by (simp add: demo_page_def threshold_def)
  have seen: "image_to_string demo_env \<lparr>img_mode = ''1'', img_size = (2, 1), img_data = [0, 255]\<rparr>
               ''ben'' = Inr ''#.''"
    by (simp add: demo_env_def demo_recognise_def)
  from binarization_threshold [OF conv m]
  have "ocr_page demo_env (demo_page [127, 128])
          = image_to_string demo_env
              (demo_page [127, 128]\<lparr>img_mode := ''L''\<rparr>
                 \<lparr>img_mode := ''1'',
                   img_data := map threshold (img_data (demo_page [127, 128]\<lparr>img_mode := ''L''\<rparr>))\<rparr>)
              ''ben''"
    by blast
  with conv m show ?thesis unfolding bw seen by simp
qed

lemma ocr_pages_world:
  "ocr_pages env i images acc w = (w', r) \<Longrightarrow> dirs w' = dirs w \<and> files w' = files w"
  by (induction images arbitrary: i acc w) (auto simp: Let_def split: sum.splits)


lemma ocr_pages_ok:
  "map (ocr_page env) images = map Inr texts \<Longrightarrow>
   snd (ocr_pages env i images acc w)
     = Inr (acc @ map (\<lambda>k. page_section (i + k) (texts ! k)) [0..<length texts])"
proof (induction images arbitrary: i acc w texts)
  case Nil
  then show ?case by simp
next
  case (Cons img rest)
  then obtain t ts where texts: "texts = t # ts" and t: "ocr_page env img = Inr t"
    and ts: "map (ocr_page env) rest = map Inr ts"
    by (cases texts) auto
  have "map (\<lambda>k. page_section (i + k) ((t # ts) ! k)) [0..<length (t # ts)]
      = page_section i t # map (\<lambda>k. page_section (Suc i + k) (ts ! k)) [0..<length ts]"
    by (simp add: upt_rec [of 0] map_Suc_upt [symmetric] del: upt_Suc)
  with Cons.IH [OF ts] t texts show ?case
    by (simp add: Let_def)
qed

lemma extract_text_world:
  "extract_text_from_pdf env pdf_path w = (w', text) \<Longrightarrow> dirs w' = dirs w \<and> files w' = files w"
  by (auto simp: extract_text_from_pdf_def split: sum.splits prod.splits dest: ocr_pages_world)



lemma ocr_pages_text:
  "snd (ocr_pages env i images acc w) = snd (ocr_pages env i images acc w')"
  by (induction images arbitrary: i acc w w') (auto simp: Let_def split: sum.splits)

lemma extract_text_any_world:
  "snd (extract_text_from_pdf env pdf_path w) = snd (extract_text_from_pdf env pdf_path w')"
proof (cases "convert_from_path env pdf_path Map.empty")
  case (Inl e)
  then show ?thesis by (simp add: extract_text_from_pdf_def)
next
  case (Inr images)
  obtain w1 r where a: "ocr_pages env 0 images [] w = (w1, r)"
    by (cases "ocr_pages env 0 images [] w")
  obtain w2 r' where b: "ocr_pages env 0 images [] w' = (w2, r')"
    by (cases "ocr_pages env 0 images [] w'")
  from a b ocr_pages_text [of env 0 images "[]" w w'] have "r = r'" by simp
  with Inr a b show ?thesis
    by (auto simp: extract_text_from_pdf_def split: sum.splits)
qed

lemma extract_text_ok:
  assumes "convert_from_path env pdf_path Map.empty = Inr images"
    and "map (ocr_page env) images = map Inr texts"
  shows "snd (extract_text_from_pdf env pdf_path w)
           = concat (map (\<lambda>k. page_section k (texts ! k)) [0 ..< length texts])"
proof -
  obtain w1 r where run: "ocr_pages env 0 images [] w = (w1, r)"
    by (cases "ocr_pages env 0 images [] w")
  with ocr_pages_ok [OF assms(2), of 0 "[]" w]
  have "r = Inr (map (\<lambda>k. page_section k (texts ! k)) [0 ..< length texts])" by simp
  with assms(1) run show ?thesis by (simp add: extract_text_from_pdf_def)
qed

section \<open>The batch driver\<close>

lemma print_line_ok: "stdout_encodes env s \<Longrightarrow> print_line env s w = Inr (py_print s w)"
  by (simp add: print_line_def)


lemma main_loop_step:
  assumes wr: "writable w (output_path f)"
    and con: "stdout_encodes env (processing_line f)" "stdout_encodes env extracting_line"
      "stdout_encodes env (saved_line f)"
  shows "\<exists>w1. main_loop env (f # rest) w = main_loop env rest w1 \<and> dirs w1 = dirs w
           \<and> files w1 = (files w)(path_key (output_path f)
                \<mapsto> snd (extract_text_from_pdf env (path_join files_dir f) w0))"
proof -
  let ?w2 = "py_print extracting_line (py_print (processing_line f) w)"
  obtain w3 t where ex: "extract_text_from_pdf env (path_join files_dir f) ?w2 = (w3, t)"
    by (cases "extract_text_from_pdf env (path_join files_dir f) ?w2")
  from extract_text_world [OF ex] have same: "dirs w3 = dirs w" "files w3 = files w" by simp_all
  have t: "t = snd (extract_text_from_pdf env (path_join files_dir f) w0)"
    using ex extract_text_any_world [of env "path_join files_dir f" ?w2 w0] by simp
  have "writable w3 (output_path f)" using wr writable_dirs [OF same(1)] by simp
  from write_file_writable [OF this, of t]
  have "main_loop env (f # rest) w
          = main_loop env rest (py_print (saved_line f)
              (w3\<lparr>files := (files w3)(path_key (output_path f) \<mapsto> t)\<rparr>))"
    using ex con by (simp add: Let_def print_line_ok)
  with same t show ?thesis by auto
qed

lemma main_loop_run:
  "\<forall>f\<in>set fs. writable w (output_path f) \<and> stdout_encodes env (processing_line f)
      \<and> stdout_encodes env (saved_line f) \<Longrightarrow>
   stdout_encodes env extracting_line \<Longrightarrow>
   \<exists>w'. main_loop env fs w = (w', Inr ()) \<and> dirs w' = dirs w
      \<and> (\<forall>k. k \<in> dom (files w) \<or> k \<in> path_key ` output_path ` set fs
             \<longrightarrow> k \<in> dom (files w'))"
proof (induction fs arbitrary: w)
  case Nil
  then show ?case by simp
next
  case (Cons f rest)
  then have "writable w (output_path f)" "stdout_encodes env (processing_line f)"
    "stdout_encodes env (saved_line f)" by simp_all
  from main_loop_step [OF this(1,2) Cons.prems(2) this(3), of rest w]
  obtain w1 where step: "main_loop env (f # rest) w = main_loop env rest w1"
    and d: "dirs w1 = dirs w"
    and fl: "files w1 = (files w)(path_key (output_path f)
                \<mapsto> snd (extract_text_from_pdf env (path_join files_dir f) w))"
    by blast
  have "\<forall>g\<in>set rest. writable w1 (output_path g) \<and> stdout_encodes env (processing_line g)
      \<and> stdout_encodes env (saved_line g)"
    using Cons.prems(1) writable_dirs [OF d] by simp
  from Cons.IH [OF this Cons.prems(2)]
  obtain w' where run: "main_loop env rest w1 = (w', Inr ())" and d': "dirs w' = dirs w1"
    and grow: "\<forall>k. k \<in> dom (files w1) \<or> k \<in> path_key ` output_path ` set rest
             \<longrightarrow> k \<in> dom (files w')"
    by blast
  have "\<forall>k. k \<in> dom (files w) \<or> k \<in> path_key ` output_path ` set (f # rest)
             \<longrightarrow> k \<in> dom (files w')"
    using grow fl by auto
  with step run d d' show ?case by (auto simp del: main_loop.simps)
qed

lemma main_loop_keep:
  "\<forall>f\<in>set fs. writable w (output_path f) \<and> stdout_encodes env (processing_line f)
      \<and> stdout_encodes env (saved_line f) \<Longrightarrow>
   stdout_encodes env extracting_line \<Longrightarrow>
   \<forall>f\<in>set fs. path_key (output_path f) \<noteq> k \<Longrightarrow>
   files (fst (main_loop env fs w)) k = files w k"
proof (induction fs arbitrary: w)
  case Nil
  then show ?case by simp
next
  case (Cons f rest)
  then have "writable w (output_path f)" "stdout_encodes env (processing_line f)"
    "stdout_encodes env (saved_line f)" by simp_all
  from main_loop_step [OF this(1,2) Cons.prems(2) this(3), of rest w]
  obtain w1 where step: "main_loop env (f # rest) w = main_loop env rest w1"
    and d: "dirs w1 = dirs w"
    and fl: "files w1 k = ((files w)(path_key (output_path f)
                \<mapsto> snd (extract_text_from_pdf env (path_join files_dir f) w))) k"
    by metis
  have "\<forall>g\<in>set rest. writable w1 (output_path g) \<and> stdout_encodes env (processing_line g)
      \<and> stdout_encodes env (saved_line g)"
    using Cons.prems(1) writable_dirs [OF d] by simp
  moreover have "\<forall>g\<in>set rest. path_key (output_path g) \<noteq> k" using Cons.prems(3) by simp
  ultimately have "files (fst (main_loop env rest w1)) k = files w1 k"
    using Cons.prems(2) by (intro Cons.IH)
  with step fl Cons.prems(3) show ?case by (auto simp del: main_loop.simps)
qed

lemma main_loop_write:
  "\<forall>g\<in>set fs. writable w (output_path g) \<and> stdout_encodes env (processing_line g)
      \<and> stdout_encodes env (saved_line g) \<Longrightarrow>
   stdout_encodes env extracting_line \<Longrightarrow> f \<in> set fs \<Longrightarrow>
   \<forall>g\<in>set fs. path_key (output_path g) = path_key (output_path f) \<longrightarrow> g = f \<Longrightarrow>
   files (fst (main_loop env fs w)) (path_key (output_path f))
     = Some (snd (extract_text_from_pdf env (path_join files_dir f) w0))"
proof (induction fs arbitrary: w)
  case Nil
  then show ?case by simp
next
  case (Cons g rest)
  then have "writable w (output_path g)" "stdout_encodes env (processing_line g)"
    "stdout_encodes env (saved_line g)" by simp_all
  from main_loop_step [OF this(1,2) Cons.prems(2) this(3), of rest w0]
  obtain w1 where step: "main_loop env (g # rest) w = main_loop env rest w1"
    and d: "dirs w1 = dirs w"
    and fl: "files w1 = (files w)(path_key (output_path g)
                \<mapsto> snd (extract_text_from_pdf env (path_join files_dir g) w0))"
    by blast
  have ok: "\<forall>h\<in>set rest. writable w1 (output_path h) \<and> stdout_encodes env (processing_line h)
      \<and> stdout_encodes env (saved_line h)"
    using Cons.prems(1) writable_dirs [OF d] by simp
  have uniq: "\<forall>h\<in>set rest. path_key (output_path h) = path_key (output_path f) \<longrightarrow> h = f"
    using Cons.prems(4) by simp
  show ?case
  proof (cases "f \<in> set rest")
    case True
    from Cons.IH [OF ok Cons.prems(2) True uniq] step show ?thesis
      by (simp del: main_loop.simps)
  next
    case False
    with Cons.prems(3) have gf: "g = f" by simp
    from False uniq have "\<forall>h\<in>set rest. path_key (output_path h) \<noteq> path_key (output_path f)"
      by auto
    from main_loop_keep [OF ok Cons.prems(2) this]
    have "files (fst (main_loop env rest w1)) (path_key (output_path f))
            = files w1 (path_key (output_path f))" .
    with step fl gf show ?thesis by (simp del: main_loop.simps)
  qed
qed




text \<open>The same happens at line 51 for a file name that the console cannot encode.\<close>

lemma driver_aborts_on_file_name:
  "snd (main odd_name_env demo_world) = Inl (Exn UnicodeEncodeError ''surrogates not allowed'')"
  by code_simp

text \<open>
  Claim C8. For a document of the input directory whose pages all rasterize and are
  all recognised, the batch driver leaves one output file, \<open>extracted_text/\<close> followed
  by the stem and \<open>_extracted.txt\<close>, that holds for each page \<open>k\<close>, in page order
  and counted from 1, the header \<open>Page k:\<close>, a newline, the text of the page and two
  newlines. The output files must be writable, the console must encode the lines that
  \<open>main\<close> prints for the batch, and no other PDF of the batch may share the output
  file (as \<open>a.pdf\<close> and \<open>a.PDF\<close> do).
\<close>

theorem batch_output_sections:
  assumes ex: "os_path_exists w files_dir"
    and ls: "os_listdir env w files_dir = Inr names"
    and f: "pdf_file \<in> set names" "endswith (lower pdf_file) ''.pdf''"
    and wr: "\<forall>g\<in>set names. endswith (lower g) ''.pdf'' \<longrightarrow> writable w (output_path g)"
    and con: "\<forall>g\<in>set names. endswith (lower g) ''.pdf'' \<longrightarrow>
                stdout_encodes env (processing_line g) \<and> stdout_encodes env (saved_line g)"
    and msg: "stdout_encodes env extracting_line" "stdout_encodes env done_line"
    and uniq: "\<forall>g\<in>set names. endswith (lower g) ''.pdf'' \<longrightarrow>
                 path_key (output_path g) = path_key (output_path pdf_file) \<longrightarrow> g = pdf_file"
    and dec: "convert_from_path env (path_join files_dir pdf_file) Map.empty = Inr images"
    and ocr: "map (ocr_page env) images = map Inr texts"
  shows "\<exists>w'. main env w = (w', Inr ()) \<and>
           files w' (path_key (output_path pdf_file))
             = Some (concat (map (\<lambda>k. ''Page '' @ str_int (int k + 1) @ '':'' @ newline
                                       @ texts ! k @ newline @ newline) [0 ..< length texts]))"
proof -
  let ?pdfs = "filter (\<lambda>f. endswith (lower f) ''.pdf'') names"
  have ok: "\<forall>g\<in>set ?pdfs. writable w (output_path g) \<and> stdout_encodes env (processing_line g)
      \<and> stdout_encodes env (saved_line g)"
    using wr con by simp
  have mem: "pdf_file \<in> set ?pdfs" using f by simp
  have uniq': "\<forall>g\<in>set ?pdfs. path_key (output_path g) = path_key (output_path pdf_file) \<longrightarrow> g = pdf_file"
    using uniq by simp
  from main_loop_run [OF ok msg(1)]
  obtain w1 where run: "main_loop env ?pdfs w = (w1, Inr ())" by blast
  from main_loop_write [OF ok msg(1) mem uniq', of w] run
  have "files w1 (path_key (output_path pdf_file))
          = Some (snd (extract_text_from_pdf env (path_join files_dir pdf_file) w))" by simp
  also have "snd (extract_text_from_pdf env (path_join files_dir pdf_file) w)
          = concat (map (\<lambda>k. page_section k (texts ! k)) [0 ..< length texts])"
    using dec ocr by (rule extract_text_ok)
  finally have out: "files w1 (path_key (output_path pdf_file))
             = Some (concat (map (\<lambda>k. ''Page '' @ str_int (int k + 1) @ '':'' @ newline
                                       @ texts ! k @ newline @ newline) [0 ..< length texts]))"
    by (simp add: page_section_def)
  have ne: "?pdfs \<noteq> []" using f by (auto simp: filter_empty_conv)
  have "main env w = (py_print done_line w1, Inr ())"
    using ex ls ne run msg by (simp add: main_def Let_def print_line_ok)
  with out show ?thesis by simp
qed

theorem batch_output_sections_witness:
  "os_path_exists demo_world files_dir \<and>
   os_listdir demo_env demo_world files_dir = Inr [''two.pdf'', ''bad.pdf'', ''notes.txt''] \<and>
   convert_from_path demo_env (path_join files_dir ''two.pdf'') Map.empty
     = Inr [demo_page [10, 200], demo_page [127, 128]] \<and>
   map (ocr_page demo_env) [demo_page [10, 200], demo_page [127, 128]] = map Inr [''#.'', ''#.''] \<and>
   stdout_encodes demo_env (processing_line ''two.pdf'') \<and>
   stdout_encodes demo_env (saved_line ''two.pdf'') \<and>
   (\<exists>w'. main demo_env demo_world = (w', Inr ()) \<and>
      files w' (False, [''extracted_text'', ''two_extracted.txt''])
        = Some (''Page 1:'' @ newline @ ''#.'' @ newline @ newline
                @ ''Page 2:'' @ newline @ ''#.'' @ newline @ newline))"
proof -
  let ?names = "[''two.pdf'', ''bad.pdf'', ''notes.txt'']"
  have ex: "os_path_exists demo_world files_dir"
    by code_simp
  have ls: "os_listdir demo_env demo_world files_dir = Inr ?names"
    by (simp add: demo_env_def files_dir_def)
  have mem: "''two.pdf'' \<in> set ?names" by simp
  have suf: "endswith (lower ''two.pdf'') ''.pdf''" by code_simp
  have wr: "\<forall>g\<in>set ?names. endswith (lower g) ''.pdf'' \<longrightarrow> writable demo_world (output_path g)"
    by code_simp
  have con: "\<forall>g\<in>set ?names. endswith (lower g) ''.pdf'' \<longrightarrow>
                stdout_encodes demo_env (processing_line g) \<and> stdout_encodes demo_env (saved_line g)"
    by code_simp
  have msg: "stdout_encodes demo_env extracting_line" "stdout_encodes demo_env done_line"
    by code_simp+
  have uniq: "\<forall>g\<in>set ?names. endswith (lower g) ''.pdf'' \<longrightarrow>
                 path_key (output_path g) = path_key (output_path ''two.pdf'') \<longrightarrow> g = ''two.pdf''"
    by code_simp
  have path: "path_join files_dir ''two.pdf'' = ''files/two.pdf''" by code_simp
  have dec: "convert_from_path demo_env (path_join files_dir ''two.pdf'') Map.empty
     = Inr [demo_page [10, 200], demo_page [127, 128]]"
    unfolding path by (simp add: demo_env_def demo_decode_def demo_document_def)
  have ocr: "map (ocr_page demo_env) [demo_page [10, 200], demo_page [127, 128]]
               = map Inr [''#.'', ''#.'']"
    by (simp add: ocr_page_def demo_env_def demo_page_def image_point_def demo_recognise_def
          threshold_def)
  have key: "path_key (output_path ''two.pdf'') = (False, [''extracted_text'', ''two_extracted.txt''])"
    by code_simp
  have sections: "concat (map (\<lambda>k. ''Page '' @ str_int (int k + 1) @ '':'' @ newline
                                 @ [''#.'', ''#.''] ! k @ newline @ newline)
                        [0 ..< length [''#.'', ''#.'']])
                = ''Page 1:'' @ newline @ ''#.'' @ newline @ newline
                @ ''Page 2:'' @ newline @ ''#.'' @ newline @ newline"
    by code_simp
  have c: "stdout_encodes demo_env (processing_line ''two.pdf'')"
    "stdout_encodes demo_env (saved_line ''two.pdf'')"
    using con suf by simp_all
  from batch_output_sections [OF ex ls mem suf wr con msg uniq dec ocr]
  show ?thesis unfolding key sections using ex ls dec ocr c by blast
qed

section \<open>The rasterizer\<close>

lemma save_pages_dirs:
  "save_pages env od fmt i images acc w = (w', r) \<Longrightarrow> dirs w' = dirs w"
  by (induction images arbitrary: i acc w)
     (auto simp: Let_def image_save_def split: sum.splits dest!: write_file_result)








lemma save_selected_dirs:
  "save_selected env od fmt mn images i ps acc w = (w', r) \<Longrightarrow> dirs w' = dirs w"
  by (induction ps arbitrary: i acc w)
     (auto simp: Let_def image_save_def split: sum.splits if_splits dest!: write_file_result)





text \<open>
  Claim C9, as amended. Once \<open>os.makedirs\<close> has created the output directory,
  \<open>convert_specific_pages\<close> with an empty page list returns the empty list and does not
  raise: the ValueError of \<open>min\<close> is raised inside the \<open>try\<close>, printed and turned
  into the empty list; the decoder is not asked and no file is written.
\<close>

theorem no_pages_gives_empty_list:
  assumes "os_makedirs output_dir w = Inr w1"
  shows "convert_specific_pages env pdf_path [] output_dir dpi fmt w
           = (py_print (''Error converting specific pages: min() arg is an empty sequence'') w1,
              Inr [])"
  using assms by (simp add: convert_specific_pages_def specific_pages_body_def)

theorem no_pages_gives_empty_list_witness:
  "\<not> isl (os_makedirs ''pdf_images'' blank_world) \<and>
   snd (convert_specific_pages demo_env ''doc.pdf'' [] ''pdf_images'' 300 ''PNG'' blank_world)
     = Inr []"
proof -
  have mk: "os_makedirs ''pdf_images'' blank_world
              = Inr (blank_world\<lparr>dirs := dirs blank_world \<union> set (ancestors (path_key ''pdf_images''))\<rparr>)"
    by (simp add: os_makedirs_def blank_world_def list_ex_iff)
  from no_pages_gives_empty_list [OF mk, of demo_env "''doc.pdf''" 300 "''PNG''"] mk
  show ?thesis by simp
qed

text \<open>
  C9 as first stated fails: \<open>os.makedirs\<close> stands before the \<open>try\<close>, and with a
  regular file named \<open>pdf_images\<close> in the way its FileExistsError reaches the caller.
\<close>

theorem no_pages_counterexample:
  "snd (convert_specific_pages demo_env ''doc.pdf'' [] ''pdf_images'' 300 ''PNG'' blocked_world)
     = Inl (Exn FileExistsError ''[Errno 17] File exists'')"
  by code_simp




lemma specific_pages_body_dirs:
  "specific_pages_body env pdf_path pages od dpi fmt w = (w', r) \<Longrightarrow> dirs w' = dirs w"
  by (auto simp: specific_pages_body_def split: sum.splits dest: save_selected_dirs)

lemma custom_settings_body_dirs:
  "custom_settings_body env pdf_path od settings v w = (w', r) \<Longrightarrow> dirs w' = dirs w"
  by (auto simp: custom_settings_body_def split: sum.splits pyval.splits if_splits
        dest: save_pages_dirs)

lemma isdir_after:
  "os_makedirs od w = Inr w1 \<Longrightarrow> dirs w' = dirs w1 \<Longrightarrow> os_path_isdir w' od"
  using makedirs_result(1,5) [of od w w1] by (simp add: os_path_isdir_def is_dir_key_def)

text \<open>
  Claim C10. After a call of \<open>convert_pdf_to_images\<close>, \<open>convert_pdf_bytes_to_images\<close>,
  \<open>convert_specific_pages\<close> or \<open>convert_with_custom_settings\<close> that returns, the
  output directory exists, also when decoding or saving failed and the empty list was
  returned.
\<close>

theorem output_directory_exists_after_return:
  "(\<not> isl (snd (convert_pdf_to_images env pdf_path output_dir dpi fmt w)) \<longrightarrow>
      os_path_isdir (fst (convert_pdf_to_images env pdf_path output_dir dpi fmt w)) output_dir) \<and>
   (\<not> isl (snd (convert_pdf_bytes_to_images env pdf_bytes output_dir dpi fmt w)) \<longrightarrow>
      os_path_isdir (fst (convert_pdf_bytes_to_images env pdf_bytes output_dir dpi fmt w)) output_dir) \<and>
   (\<not> isl (snd (convert_specific_pages env pdf_path pages output_dir dpi fmt w)) \<longrightarrow>
      os_path_isdir (fst (convert_specific_pages env pdf_path pages output_dir dpi fmt w)) output_dir) \<and>
   (\<not> isl (snd (convert_with_custom_settings env pdf_path output_dir kwargs w)) \<longrightarrow>
      os_path_isdir (fst (convert_with_custom_settings env pdf_path output_dir kwargs w)) output_dir)"
proof (intro conjI impI)
  assume "\<not> isl (snd (convert_pdf_to_images env pdf_path output_dir dpi fmt w))"
  then obtain w1 where mk: "os_makedirs output_dir w = Inr w1"
    by (cases "os_makedirs output_dir w") (auto simp: convert_pdf_to_images_def)
  have "dirs (fst (convert_pdf_to_images env pdf_path output_dir dpi fmt w)) = dirs w1"
    using mk
    by (auto simp: convert_pdf_to_images_def split: sum.splits prod.splits dest: save_pages_dirs)
  with mk show "os_path_isdir (fst (convert_pdf_to_images env pdf_path output_dir dpi fmt w)) output_dir"
    by (rule isdir_after)
next
  assume "\<not> isl (snd (convert_pdf_bytes_to_images env pdf_bytes output_dir dpi fmt w))"
  then obtain w1 where mk: "os_makedirs output_dir w = Inr w1"
    by (cases "os_makedirs output_dir w") (auto simp: convert_pdf_bytes_to_images_def)
  have "dirs (fst (convert_pdf_bytes_to_images env pdf_bytes output_dir dpi fmt w)) = dirs w1"
    using mk
    by (auto simp: convert_pdf_bytes_to_images_def split: sum.splits prod.splits
          dest: save_pages_dirs)
  with mk show "os_path_isdir (fst (convert_pdf_bytes_to_images env pdf_bytes output_dir dpi fmt w)) output_dir"
    by (rule isdir_after)
next
  assume "\<not> isl (snd (convert_specific_pages env pdf_path pages output_dir dpi fmt w))"
  then obtain w1 where mk: "os_makedirs output_dir w = Inr w1"
    by (cases "os_makedirs output_dir w") (auto simp: convert_specific_pages_def)
  have "dirs (fst (convert_specific_pages env pdf_path pages output_dir dpi fmt w)) = dirs w1"
    using mk
    by (auto simp: convert_specific_pages_def split: sum.splits prod.splits
          dest: specific_pages_body_dirs)
  with mk show "os_path_isdir (fst (convert_specific_pages env pdf_path pages output_dir dpi fmt w)) output_dir"
    by (rule isdir_after)
next
  assume ret: "\<not> isl (snd (convert_with_custom_settings env pdf_path output_dir kwargs w))"
  obtain v where v: "(default_settings ++ kwargs) ''format'' = Some v"
    by (cases "kwargs ''format''") (simp_all add: default_settings_def map_add_def)
  from ret v obtain w1 where mk: "os_makedirs output_dir w = Inr w1"
    by (cases "os_makedirs output_dir w") (auto simp: convert_with_custom_settings_def Let_def)
  have "dirs (fst (convert_with_custom_settings env pdf_path output_dir kwargs w)) = dirs w1"
    using mk v
    by (auto simp: convert_with_custom_settings_def Let_def split: sum.splits prod.splits
          dest: custom_settings_body_dirs)
  with mk show "os_path_isdir (fst (convert_with_custom_settings env pdf_path output_dir kwargs w)) output_dir"
    by (rule isdir_after)
qed

theorem output_directory_exists_after_return_witness:
  "\<not> isl (snd (convert_pdf_to_images demo_env ''doc.pdf'' ''pdf_images'' 300 ''PNG'' blank_world)) \<and>
   os_path_isdir (fst (convert_pdf_to_images demo_env ''doc.pdf'' ''pdf_images'' 300 ''PNG'' blank_world))
     ''pdf_images'' \<and>
   \<not> isl (snd (convert_pdf_bytes_to_images demo_env ''garbage'' ''out/'' 300 ''PNG'' blank_world)) \<and>
   os_path_isdir (fst (convert_pdf_bytes_to_images demo_env ''garbage'' ''out/'' 300 ''PNG'' blank_world))
     ''out/'' \<and>
   \<not> isl (snd (convert_specific_pages demo_env ''doc.pdf'' [2] ''a/b'' 300 ''PNG'' blank_world)) \<and>
   os_path_isdir (fst (convert_specific_pages demo_env ''doc.pdf'' [2] ''a/b'' 300 ''PNG'' blank_world))
     ''a/b'' \<and>
   \<not> isl (snd (convert_with_custom_settings demo_env ''doc.pdf'' ''custom_images''
                  [''format'' \<mapsto> PStr ''JPEG''] blank_world)) \<and>
   os_path_isdir (fst (convert_with_custom_settings demo_env ''doc.pdf'' ''custom_images''
                  [''format'' \<mapsto> PStr ''JPEG''] blank_world)) ''custom_images''"
proof -
  have 1: "\<not> isl (snd (convert_pdf_to_images demo_env ''doc.pdf'' ''pdf_images'' 300 ''PNG'' blank_world))"
    by code_simp
  have 2: "\<not> isl (snd (convert_pdf_bytes_to_images demo_env ''garbage'' ''out/'' 300 ''PNG'' blank_world))"
    by code_simp
  have 3: "\<not> isl (snd (convert_specific_pages demo_env ''doc.pdf'' [2] ''a/b'' 300 ''PNG'' blank_world))"
    by code_simp
  have 4: "\<not> isl (snd (convert_with_custom_settings demo_env ''doc.pdf'' ''custom_images''
                  [''format'' \<mapsto> PStr ''JPEG''] blank_world))"
    by code_simp
  from output_directory_exists_after_return
         [of demo_env "''doc.pdf''" "''pdf_images''" 300 "''PNG''" blank_world]
       1
  have a: "os_path_isdir (fst (convert_pdf_to_images demo_env ''doc.pdf'' ''pdf_images'' 300 ''PNG'' blank_world))
     ''pdf_images''" by blast
  from output_directory_exists_after_return
         [of demo_env _ "''out/''" 300 "''PNG''" blank_world "''garbage''"]
       2
  have b: "os_path_isdir (fst (convert_pdf_bytes_to_images demo_env ''garbage'' ''out/'' 300 ''PNG'' blank_world))
     ''out/''" by blast
  from output_directory_exists_after_return
         [of demo_env "''doc.pdf''" "''a/b''" 300 "''PNG''" blank_world _ "[2]"]
       3
  have c: "os_path_isdir (fst (convert_specific_pages demo_env ''doc.pdf'' [2] ''a/b'' 300 ''PNG'' blank_world))
     ''a/b''" by blast
  from output_directory_exists_after_return
         [of demo_env "''doc.pdf''" "''custom_images''" _ _ blank_world _ _ "[''format'' \<mapsto> PStr ''JPEG'']"]
       4
  have d: "os_path_isdir (fst (convert_with_custom_settings demo_env ''doc.pdf'' ''custom_images''
                  [''format'' \<mapsto> PStr ''JPEG''] blank_world)) ''custom_images''" by blast
  from 1 2 3 4 a b c d show ?thesis by blast
qed

text \<open>
  Claim C7. For a PDF file without pages, \<open>get_pdf_info\<close> returns a record with the
  page count 0, the size of the file in megabytes and the file name, and with neither
  the dimensions of a page nor a colour mode.
\<close>

theorem empty_pdf_info:
  assumes dec: "convert_from_path env pdf_path [''dpi'' \<mapsto> PInt 50] = Inr []"
    and content: "files w (path_key pdf_path) = Some content" and ne: "pdf_path \<noteq> []"
  shows "\<exists>info. get_pdf_info env pdf_path w = (w, info)
           \<and> info ''page_count'' = Some (PInt 0)
           \<and> info ''page_dimensions'' = None \<and> info ''page_mode'' = None
           \<and> info ''file_size_mb'' = Some (PFloat (of_nat (length content) / 1048576))
           \<and> info ''filename'' = Some (PStr (basename pdf_path))
           \<and> dom info = {''page_count'', ''file_size_mb'', ''filename''}"
  using assms by (auto simp: get_pdf_info_def os_path_getsize_def)

theorem empty_pdf_info_witness:
  "convert_from_path demo_env ''empty.pdf'' [''dpi'' \<mapsto> PInt 50] = Inr [] \<and>
   files demo_world (path_key ''empty.pdf'') = Some ''%PDF-'' \<and>
   snd (get_pdf_info demo_env ''empty.pdf'' demo_world) ''page_count'' = Some (PInt 0) \<and>
   snd (get_pdf_info demo_env ''empty.pdf'' demo_world) ''page_dimensions'' = None \<and>
   snd (get_pdf_info demo_env ''empty.pdf'' demo_world) ''file_size_mb'' = Some (PFloat (5 / 1048576)) \<and>
   snd (get_pdf_info demo_env ''empty.pdf'' demo_world) ''filename'' = Some (PStr ''empty.pdf'')"
proof -
  have dec: "convert_from_path demo_env ''empty.pdf'' [''dpi'' \<mapsto> PInt 50] = Inr []"
    by (simp add: demo_env_def demo_decode_def demo_document_def)
  have content: "files demo_world (path_key ''empty.pdf'') = Some ''%PDF-''"
    by code_simp
  have ne: "''empty.pdf'' \<noteq> []" by simp
  have base: "basename ''empty.pdf'' = ''empty.pdf''"
    by code_simp
  from empty_pdf_info [OF dec content ne]
  obtain info where run: "get_pdf_info demo_env ''empty.pdf'' demo_world = (demo_world, info)"
    and fields: "info ''page_count'' = Some (PInt 0)" "info ''page_dimensions'' = None"
      "info ''file_size_mb'' = Some (PFloat (of_nat (length ''%PDF-'') / 1048576))"
      "info ''filename'' = Some (PStr (basename ''empty.pdf''))"
    by (elim exE conjE)
  from run fields dec content show ?thesis
    unfolding base by simp
qed

end
